theory Spec2Isabelle
  imports Main "HOL-Library.Word" "HOL-Library.Monad_Syntax"
begin

unbundle bit_operations_syntax

section \<open>The SERCOM1 UART driver of the LUNA D21 board (uart.c)\<close>

text \<open>
  The driver runs on a SAM D21 (ARM Cortex-M0+): \<^verbatim>\<open>unsigned long\<close>, \<^verbatim>\<open>uint32_t\<close> and the type
  of \<^verbatim>\<open>UINT32_C(1)\<close> are 32 bits wide and are modelled as \<^typ>\<open>32 word\<close>; the registers have
  the widths of the device header (CTRLA, CTRLB, SYNCBUSY 32 bits; BAUD, DATA 16 bits;
  INTENSET, INTFLAG 8 bits).
\<close>

subsection \<open>Bit masks of the device header\<close>

text \<open>
  The masks and field macros are those of the SAM D21 device header (\<^verbatim>\<open>sam.h\<close>), which
  the driver includes. CTRLA: SWRST is bit 0, ENABLE bit 1, MODE bits 2 to 4 (1 selects the
  USART with internal clock), RUNSTDBY bit 7, SAMPR bits 13 to 15, TXPO bits 16 and 17,
  RXPO bits 20 and 21, DORD bit 30. CTRLB: CHSIZE bits 0 to 2, TXEN bit 16, RXEN bit 17.
  SYNCBUSY: SWRST bit 0, ENABLE bit 1, CTRLB bit 2. INTENSET and INTFLAG: DRE bit 0, RXC
  bit 2.
\<close>

definition SERCOM_USART_CTRLA_SWRST :: "32 word" where
  "SERCOM_USART_CTRLA_SWRST = 0x1"

definition SERCOM_USART_CTRLA_ENABLE :: "32 word" where
  "SERCOM_USART_CTRLA_ENABLE = 0x2"

definition SERCOM_USART_CTRLA_MODE_USART_INT_CLK :: "32 word" where
  "SERCOM_USART_CTRLA_MODE_USART_INT_CLK = push_bit 2 0x1"

definition SERCOM_USART_CTRLA_RUNSTDBY :: "32 word" where
  "SERCOM_USART_CTRLA_RUNSTDBY = push_bit 7 0x1"

definition SERCOM_USART_CTRLA_SAMPR :: "32 word \<Rightarrow> 32 word" where
  "SERCOM_USART_CTRLA_SAMPR v = push_bit 13 v AND push_bit 13 0x7"

definition SERCOM_USART_CTRLA_TXPO :: "32 word \<Rightarrow> 32 word" where
  "SERCOM_USART_CTRLA_TXPO v = push_bit 16 v AND push_bit 16 0x3"

definition SERCOM_USART_CTRLA_RXPO :: "32 word \<Rightarrow> 32 word" where
  "SERCOM_USART_CTRLA_RXPO v = push_bit 20 v AND push_bit 20 0x3"

definition SERCOM_USART_CTRLA_DORD :: "32 word" where
  "SERCOM_USART_CTRLA_DORD = push_bit 30 0x1"

definition SERCOM_USART_CTRLB_CHSIZE :: "32 word \<Rightarrow> 32 word" where
  "SERCOM_USART_CTRLB_CHSIZE v = v AND 0x7"

definition SERCOM_USART_CTRLB_TXEN :: "32 word" where
  "SERCOM_USART_CTRLB_TXEN = push_bit 16 0x1"

definition SERCOM_USART_CTRLB_RXEN :: "32 word" where
  "SERCOM_USART_CTRLB_RXEN = push_bit 17 0x1"

definition SERCOM_USART_SYNCBUSY_SWRST :: "32 word" where
  "SERCOM_USART_SYNCBUSY_SWRST = 0x1"

definition SERCOM_USART_SYNCBUSY_ENABLE :: "32 word" where
  "SERCOM_USART_SYNCBUSY_ENABLE = 0x2"

definition SERCOM_USART_SYNCBUSY_CTRLB :: "32 word" where
  "SERCOM_USART_SYNCBUSY_CTRLB = 0x4"

definition SERCOM_USART_INTENSET_RXC :: "8 word" where
  "SERCOM_USART_INTENSET_RXC = 0x4"

definition SERCOM_USART_INTFLAG_DRE :: "8 word" where
  "SERCOM_USART_INTFLAG_DRE = 0x1"

definition SERCOM_USART_INTFLAG_RXC :: "8 word" where
  "SERCOM_USART_INTFLAG_RXC = 0x4"

subsection \<open>The baud divisor (uart\_init, lines 114 to 122)\<close>

text \<open>
  The four constants. \<^verbatim>\<open>UINT32_C(1)\<close> is a 32-bit constant (\<^verbatim>\<open>uint_least32_t\<close>, an
  \<^verbatim>\<open>unsigned long\<close> on this target), so each shift is carried out in 32 bits, on a count
  that is at least the width of the type. C leaves such a shift undefined. \<open>shl32\<close> is the
  32-bit left shift of the target, in which a bit shifted past bit 31 is lost: the ARM
  \<^verbatim>\<open>LSL\<close> instruction and the compiler's constant folder both give 0 for a count of 32 or
  more. The division and the mask follow in 32 bits as well. \<^verbatim>\<open>CONF_CPU_FREQUENCY\<close> is
  defined in \<^verbatim>\<open>peripheral_clk_config.h\<close> and is a parameter here.
\<close>

definition shl32 :: "32 word \<Rightarrow> nat \<Rightarrow> 32 word" where
  "shl32 x n = push_bit n x"

definition baud_m1 :: "32 word \<Rightarrow> 32 word" where
  "baud_m1 CONF_CPU_FREQUENCY = shl32 1 32 div CONF_CPU_FREQUENCY"

definition baud_m2 :: "32 word \<Rightarrow> 32 word" where
  "baud_m2 CONF_CPU_FREQUENCY = (shl32 1 42 div CONF_CPU_FREQUENCY) AND 0x3FF"

definition baud_m3 :: "32 word \<Rightarrow> 32 word" where
  "baud_m3 CONF_CPU_FREQUENCY = (shl32 1 52 div CONF_CPU_FREQUENCY) AND 0x3FF"

definition baud_m4 :: "32 word \<Rightarrow> 32 word" where
  "baud_m4 CONF_CPU_FREQUENCY = (shl32 1 62 div CONF_CPU_FREQUENCY) AND 0x3FF"

text \<open>
  The four nested multiply-and-shift steps and the subtraction from 65535, on given
  constants, in wrapping 32-bit arithmetic (\<^verbatim>\<open>baudrate\<close> is an \<^verbatim>\<open>unsigned long\<close>).
\<close>

definition baud_fold :: "32 word \<Rightarrow> 32 word \<Rightarrow> 32 word \<Rightarrow> 32 word \<Rightarrow> 32 word \<Rightarrow> 32 word" where
  "baud_fold m1 m2 m3 m4 baudrate =
     (let op4 = drop_bit 10 (baudrate * m4 - 1);
          op3 = drop_bit 10 (baudrate * m3 + op4);
          op2 = drop_bit 10 (baudrate * m2 + op3);
          op1 = drop_bit 12 (baudrate * m1 + op2);
          baud = 65535 - op1
      in baud)"

definition uart_baud :: "32 word \<Rightarrow> 32 word \<Rightarrow> 32 word" where
  "uart_baud CONF_CPU_FREQUENCY baudrate =
     baud_fold (baud_m1 CONF_CPU_FREQUENCY) (baud_m2 CONF_CPU_FREQUENCY)
       (baud_m3 CONF_CPU_FREQUENCY) (baud_m4 CONF_CPU_FREQUENCY) baudrate"

subsection \<open>The specification's formula and algorithm, for comparison\<close>

text \<open>
  The reference value of the specification, on unbounded integers:
  \<open>65535 - floor (65536 * 16 * target_baud / clock_hz)\<close>.
\<close>

definition reference_baud :: "nat \<Rightarrow> nat \<Rightarrow> int" where
  "reference_baud clock_hz target_baud =
     65535 - int ((65536 * 16 * target_baud) div clock_hz)"

text \<open>
  The constants as the specification words them: \<open>2^32 / clock_hz\<close>, and \<open>2^42\<close>, \<open>2^52\<close>,
  \<open>2^62\<close> divided by \<open>clock_hz\<close>, each masked to its low 10 bits.
\<close>

definition spec_m1 :: "nat \<Rightarrow> nat" where
  "spec_m1 clock_hz = 2 ^ 32 div clock_hz"

definition spec_m2 :: "nat \<Rightarrow> nat" where
  "spec_m2 clock_hz = (2 ^ 42 div clock_hz) mod 2 ^ 10"

definition spec_m3 :: "nat \<Rightarrow> nat" where
  "spec_m3 clock_hz = (2 ^ 52 div clock_hz) mod 2 ^ 10"

definition spec_m4 :: "nat \<Rightarrow> nat" where
  "spec_m4 clock_hz = (2 ^ 62 div clock_hz) mod 2 ^ 10"

text \<open>
  The specification's steps: multiply the target baud rate by a constant, add the previous
  partial result, shift right (by 10, the last step by 12); the register value is
  \<open>65535 - op1\<close>. The specification does not say what the first step adds; \<open>seed\<close> is that
  value.
\<close>

definition spec_step :: "nat \<Rightarrow> int \<Rightarrow> int \<Rightarrow> int \<Rightarrow> int" where
  "spec_step shift target_baud m previous = (target_baud * m + previous) div 2 ^ shift"

definition spec_compute_baud_register :: "int \<Rightarrow> nat \<Rightarrow> nat \<Rightarrow> int" where
  "spec_compute_baud_register seed clock_hz target_baud =
     (let op4 = spec_step 10 (int target_baud) (int (spec_m4 clock_hz)) seed;
          op3 = spec_step 10 (int target_baud) (int (spec_m3 clock_hz)) op4;
          op2 = spec_step 10 (int target_baud) (int (spec_m2 clock_hz)) op3;
          op1 = spec_step 12 (int target_baud) (int (spec_m1 clock_hz)) op2
      in 65535 - op1)"

subsection \<open>The simulated register block and the driver's state\<close>

datatype pin = PIN_PA00 | PIN_PA01

datatype pin_function =
    GPIO_PIN_FUNCTION_OFF
  | MUX_PA00D_SERCOM1_PAD0
  | MUX_PA01D_SERCOM1_PAD1

text \<open>
  What the driver does to the world outside its own variables: every register write, every
  read of the data register (the one read with a side effect), and every call of a
  collaborator, in program order.
\<close>

datatype event =
    Write_CTRLA "32 word"
  | Write_CTRLB "32 word"
  | Write_BAUD "16 word"
  | Write_INTENSET "8 word"
  | Write_DATA "16 word"
  | Read_DATA "16 word"
  | Call_gpio_set_pin_function pin pin_function
  | Call_pm_enable_bus_clock
  | Call_gclk_enable_channel
  | Call_NVIC_EnableIRQ
  | Call_uart_byte_received_cb "8 word"

text \<open>
  \<open>CTRLA\<close> to \<open>DATA\<close> are the registers of \<^verbatim>\<open>sercom->USART\<close> that the driver touches.
  \<open>SYNCBUSY\<close> is driven by the hardware: \<open>SYNCBUSY s n\<close> is the value that the \<open>n\<close>-th read
  of the register returns, and \<open>syncbusy_reads\<close> counts the reads made so far.
  \<open>uart_active\<close> is the driver's global variable; \<open>pin_function_of\<close> is the pin multiplexer;
  \<open>irq_enabled\<close> is the line \<^verbatim>\<open>SERCOM1_IRQn\<close> at the interrupt controller.
\<close>

record uart_state =
  CTRLA :: "32 word"
  CTRLB :: "32 word"
  BAUD :: "16 word"
  INTENSET :: "8 word"
  INTFLAG :: "8 word"
  DATA :: "16 word"
  SYNCBUSY :: "nat \<Rightarrow> 32 word"
  syncbusy_reads :: nat
  uart_active :: bool
  pin_function_of :: "pin \<Rightarrow> pin_function"
  irq_enabled :: bool
  trace :: "event list"

definition log_event :: "event \<Rightarrow> uart_state \<Rightarrow> uart_state" where
  "log_event e s = s\<lparr>trace := trace s @ [e]\<rparr>"

subsubsection \<open>Register accesses\<close>

definition write_CTRLA :: "32 word \<Rightarrow> uart_state \<Rightarrow> uart_state" where
  "write_CTRLA v s = log_event (Write_CTRLA v) (s\<lparr>CTRLA := v\<rparr>)"

definition write_CTRLB :: "32 word \<Rightarrow> uart_state \<Rightarrow> uart_state" where
  "write_CTRLB v s = log_event (Write_CTRLB v) (s\<lparr>CTRLB := v\<rparr>)"

definition write_BAUD :: "16 word \<Rightarrow> uart_state \<Rightarrow> uart_state" where
  "write_BAUD v s = log_event (Write_BAUD v) (s\<lparr>BAUD := v\<rparr>)"

text \<open>
  INTENSET is a write-one-to-set view of the interrupt enable mask: the bits written as 1
  are set, the others keep their value.
\<close>

definition write_INTENSET :: "8 word \<Rightarrow> uart_state \<Rightarrow> uart_state" where
  "write_INTENSET v s = log_event (Write_INTENSET v) (s\<lparr>INTENSET := INTENSET s OR v\<rparr>)"

definition write_DATA :: "16 word \<Rightarrow> uart_state \<Rightarrow> uart_state" where
  "write_DATA v s = log_event (Write_DATA v) (s\<lparr>DATA := v\<rparr>)"

text \<open>
  Reading the data register returns the character and, as the handler's comment says,
  marks the receive interrupt as serviced: the hardware clears the receive-complete flag.
\<close>

definition read_DATA :: "uart_state \<Rightarrow> 16 word \<times> uart_state" where
  "read_DATA s =
     (DATA s, log_event (Read_DATA (DATA s))
                (s\<lparr>INTFLAG := INTFLAG s AND NOT SERCOM_USART_INTFLAG_RXC\<rparr>))"

definition read_SYNCBUSY :: "uart_state \<Rightarrow> 32 word \<times> uart_state" where
  "read_SYNCBUSY s =
     (SYNCBUSY s (syncbusy_reads s), s\<lparr>syncbusy_reads := Suc (syncbusy_reads s)\<rparr>)"

text \<open>One read of a bit field of SYNCBUSY, as in \<^verbatim>\<open>sercom->USART.SYNCBUSY.bit.ENABLE\<close>.\<close>

definition syncbusy_bit :: "32 word \<Rightarrow> uart_state \<Rightarrow> bool \<times> uart_state" where
  "syncbusy_bit bitmask s = (case read_SYNCBUSY s of (v, s') \<Rightarrow> (v AND bitmask \<noteq> 0, s'))"

text \<open>
  The condition of the loop at line 87: two reads, the second only when the first bit is
  clear.
\<close>

definition syncbusy_SWRST_or_ENABLE :: "uart_state \<Rightarrow> bool \<times> uart_state" where
  "syncbusy_SWRST_or_ENABLE s =
     (case syncbusy_bit SERCOM_USART_SYNCBUSY_SWRST s of
        (swrst, s') \<Rightarrow>
          if swrst then (True, s') else syncbusy_bit SERCOM_USART_SYNCBUSY_ENABLE s')"

text \<open>
  A busy-wait \<^verbatim>\<open>while (cond);\<close>. The loop has no bound: where the condition never turns
  false the function has no result (\<open>None\<close>).
\<close>

partial_function (option) wait_while ::
  "(uart_state \<Rightarrow> bool \<times> uart_state) \<Rightarrow> uart_state \<Rightarrow> uart_state option" where
  "wait_while cond s =
     (case cond s of (busy, s') \<Rightarrow> if busy then wait_while cond s' else Some s')"

subsubsection \<open>Collaborators\<close>

text \<open>
  Modelled from the spec: \<^verbatim>\<open>gpio_set_pin_function\<close> of the HAL (\<^verbatim>\<open>hal_gpio.h\<close>), the
  pin-function mapper: "assign pin P to peripheral signal S" or "reset pin P to
  unconfigured".
\<close>

definition gpio_set_pin_function :: "pin \<Rightarrow> pin_function \<Rightarrow> uart_state \<Rightarrow> uart_state" where
  "gpio_set_pin_function p f s =
     log_event (Call_gpio_set_pin_function p f)
       (s\<lparr>pin_function_of := (pin_function_of s)(p := f)\<rparr>)"

text \<open>
  Modelled from the spec: \<^verbatim>\<open>_pm_enable_bus_clock\<close> and \<^verbatim>\<open>_gclk_enable_channel\<close> of the clock
  subsystem, "both fire-and-forget": the calls are recorded and change nothing the driver
  reads.
\<close>

definition pm_enable_bus_clock :: "uart_state \<Rightarrow> uart_state" where
  "pm_enable_bus_clock s = log_event Call_pm_enable_bus_clock s"

definition gclk_enable_channel :: "uart_state \<Rightarrow> uart_state" where
  "gclk_enable_channel s = log_event Call_gclk_enable_channel s"

text \<open>
  Modelled from the spec: \<^verbatim>\<open>NVIC_EnableIRQ\<close> of the interrupt controller, "enable interrupt
  line for peripheral X".
\<close>

definition NVIC_EnableIRQ :: "uart_state \<Rightarrow> uart_state" where
  "NVIC_EnableIRQ s = log_event Call_NVIC_EnableIRQ (s\<lparr>irq_enabled := True\<rparr>)"

subsection \<open>The driver\<close>

text \<open>\<^verbatim>\<open>_uart_configure_pinmux\<close> (lines 34 to 43).\<close>

definition static_uart_configure_pinmux :: "bool \<Rightarrow> uart_state \<Rightarrow> uart_state" where
  "static_uart_configure_pinmux use_for_uart s =
     (if use_for_uart
      then gpio_set_pin_function PIN_PA01 MUX_PA01D_SERCOM1_PAD1
             (gpio_set_pin_function PIN_PA00 MUX_PA00D_SERCOM1_PAD0 s)
      else gpio_set_pin_function PIN_PA01 GPIO_PIN_FUNCTION_OFF
             (gpio_set_pin_function PIN_PA00 GPIO_PIN_FUNCTION_OFF s))"

text \<open>\<^verbatim>\<open>uart_configure_pinmux\<close> (lines 49 to 53) and \<^verbatim>\<open>uart_release_pinmux\<close> (lines 60 to 64).\<close>

definition uart_configure_pinmux :: "uart_state \<Rightarrow> uart_state" where
  "uart_configure_pinmux s = (static_uart_configure_pinmux True s)\<lparr>uart_active := True\<rparr>"

definition uart_release_pinmux :: "uart_state \<Rightarrow> uart_state" where
  "uart_release_pinmux s = (static_uart_configure_pinmux False s)\<lparr>uart_active := False\<rparr>"

text \<open>The values written to CTRLA (lines 99 to 105) and CTRLB (lines 126 to 129).\<close>

definition ctrla_config :: "32 word" where
  "ctrla_config =
     SERCOM_USART_CTRLA_DORD OR SERCOM_USART_CTRLA_TXPO 0 OR SERCOM_USART_CTRLA_RXPO 1 OR
     SERCOM_USART_CTRLA_SAMPR 0 OR SERCOM_USART_CTRLA_RUNSTDBY OR
     SERCOM_USART_CTRLA_MODE_USART_INT_CLK"

definition ctrlb_config :: "32 word" where
  "ctrlb_config =
     SERCOM_USART_CTRLB_CHSIZE 0 OR SERCOM_USART_CTRLB_TXEN OR SERCOM_USART_CTRLB_RXEN"

text \<open>
  \<^verbatim>\<open>uart_init\<close> (lines 71 to 146). A write to a bit field of CTRLA reads the register,
  changes the bit and writes the register back. The 32-bit \<^verbatim>\<open>baud\<close> is truncated to the 16
  bits of the BAUD register.
\<close>

definition uart_init :: "32 word \<Rightarrow> bool \<Rightarrow> 32 word \<Rightarrow> uart_state \<Rightarrow> uart_state option" where
  "uart_init CONF_CPU_FREQUENCY configure_pinmux baudrate s0 = do {
     s1 \<leftarrow> wait_while (syncbusy_bit SERCOM_USART_SYNCBUSY_ENABLE) s0;
     let s2 = write_CTRLA (CTRLA s1 AND NOT SERCOM_USART_CTRLA_ENABLE) s1;
     s3 \<leftarrow> wait_while (syncbusy_bit SERCOM_USART_SYNCBUSY_SWRST) s2;
     let s4 = write_CTRLA (CTRLA s3 OR SERCOM_USART_CTRLA_SWRST) s3;
     s5 \<leftarrow> wait_while (syncbusy_bit SERCOM_USART_SYNCBUSY_SWRST) s4;
     s6 \<leftarrow> wait_while syncbusy_SWRST_or_ENABLE s5;
     let s7 = (if configure_pinmux then uart_configure_pinmux s6 else s6);
     let s8 = gclk_enable_channel (pm_enable_bus_clock s7);
     let s9 = write_CTRLA ctrla_config s8;
     let s10 = write_BAUD (ucast (uart_baud CONF_CPU_FREQUENCY baudrate)) s9;
     let s11 = write_CTRLB ctrlb_config s10;
     s12 \<leftarrow> wait_while (syncbusy_bit SERCOM_USART_SYNCBUSY_CTRLB) s11;
     let s13 = write_INTENSET SERCOM_USART_INTENSET_RXC s12;
     let s14 = NVIC_EnableIRQ s13;
     let s15 = write_CTRLA (CTRLA s14 OR SERCOM_USART_CTRLA_ENABLE) s14;
     wait_while (syncbusy_bit SERCOM_USART_SYNCBUSY_ENABLE) s15
   }"

text \<open>
  \<^verbatim>\<open>uart_byte_received_cb\<close> (line 152): the weak default has an empty body; the call and
  its argument are recorded.
\<close>

definition uart_byte_received_cb :: "8 word \<Rightarrow> uart_state \<Rightarrow> uart_state" where
  "uart_byte_received_cb byte s = log_event (Call_uart_byte_received_cb byte) s"

text \<open>
  \<^verbatim>\<open>SERCOM1_Handler\<close> (lines 158 to 168). The 16-bit value read is converted to the
  callback's \<^verbatim>\<open>uint8_t\<close> parameter.
\<close>

definition SERCOM1_Handler :: "uart_state \<Rightarrow> uart_state" where
  "SERCOM1_Handler s =
     (if INTFLAG s AND SERCOM_USART_INTFLAG_RXC \<noteq> 0
      then (case read_DATA s of (byte, s') \<Rightarrow> uart_byte_received_cb (ucast byte) s')
      else s)"

text \<open>\<^verbatim>\<open>uart_ready_for_write\<close> (lines 175 to 178): the masked flag, converted to \<^verbatim>\<open>bool\<close>.\<close>

definition uart_ready_for_write :: "uart_state \<Rightarrow> bool" where
  "uart_ready_for_write s = (INTFLAG s AND SERCOM_USART_INTFLAG_DRE \<noteq> 0)"

text \<open>
  \<^verbatim>\<open>uart_nonblocking_write\<close> (lines 187 to 190): the byte is widened to the 16 bits of the
  data register and stored; the function does not look at the flags.
\<close>

definition uart_nonblocking_write :: "8 word \<Rightarrow> uart_state \<Rightarrow> uart_state" where
  "uart_nonblocking_write byte s = write_DATA (ucast byte) s"

text \<open>
  \<^verbatim>\<open>uart_blocking_write\<close> (lines 199 to 203). The register block does not change between
  two reads of INTFLAG, so the wait ends at its first test or never.
\<close>

definition uart_blocking_write :: "8 word \<Rightarrow> uart_state \<Rightarrow> uart_state option" where
  "uart_blocking_write byte s = do {
     s' \<leftarrow> wait_while (\<lambda>t. (\<not> uart_ready_for_write t, t)) s;
     Some (uart_nonblocking_write byte s')
   }"

subsection \<open>Simulated hardware events and sample register blocks\<close>

text \<open>
  One receive-complete condition of the simulated register block: the hardware puts the
  received value in the data register and raises the receive-complete flag.
\<close>

definition simulate_receive_complete :: "16 word \<Rightarrow> uart_state \<Rightarrow> uart_state" where
  "simulate_receive_complete d s =
     s\<lparr>DATA := d, INTFLAG := INTFLAG s OR SERCOM_USART_INTFLAG_RXC\<rparr>"

text \<open>The register block after reset, with SYNCBUSY busy on its first three reads.\<close>

definition reset_state :: uart_state where
  "reset_state =
     \<lparr>CTRLA = 0, CTRLB = 0, BAUD = 0, INTENSET = 0, INTFLAG = 0, DATA = 0,
      SYNCBUSY = (\<lambda>n. if n < 3 then 0x7 else 0), syncbusy_reads = 0,
      uart_active = False, pin_function_of = (\<lambda>p. GPIO_PIN_FUNCTION_OFF),
      irq_enabled = False, trace = []\<rparr>"

subsection \<open>Notions used to state the properties\<close>

text \<open>
  The pairs (clock frequency, baud rate) of the representative set: 48 MHz and 8 MHz, each
  with the seven baud rates.
\<close>

definition representative_inputs :: "(nat \<times> nat) list" where
  "representative_inputs =
     [(48000000, 300), (48000000, 9600), (48000000, 19200), (48000000, 38400),
      (48000000, 57600), (48000000, 115200), (48000000, 230400),
      (8000000, 300), (8000000, 9600), (8000000, 19200), (8000000, 38400),
      (8000000, 57600), (8000000, 115200), (8000000, 230400)]"

text \<open>
  \<open>only_polls s s'\<close>: \<open>s'\<close> is \<open>s\<close> after some reads of SYNCBUSY and nothing else.
\<close>

definition only_polls :: "uart_state \<Rightarrow> uart_state \<Rightarrow> bool" where
  "only_polls s s' =
     (s' = s\<lparr>syncbusy_reads := syncbusy_reads s'\<rparr> \<and> syncbusy_reads s \<le> syncbusy_reads s')"

text \<open>
  The events of \<^verbatim>\<open>uart_init\<close> from the disable (line 76) to the write of CTRLB (line 126),
  for a CTRLA that holds \<open>ctrla0\<close> at the call.
\<close>

definition uart_init_events :: "bool \<Rightarrow> 32 word \<Rightarrow> 32 word \<Rightarrow> 32 word \<Rightarrow> event list" where
  "uart_init_events configure_pinmux ctrla0 CONF_CPU_FREQUENCY baudrate =
     [Write_CTRLA (ctrla0 AND NOT SERCOM_USART_CTRLA_ENABLE),
      Write_CTRLA ((ctrla0 AND NOT SERCOM_USART_CTRLA_ENABLE) OR SERCOM_USART_CTRLA_SWRST)] @
     (if configure_pinmux
      then [Call_gpio_set_pin_function PIN_PA00 MUX_PA00D_SERCOM1_PAD0,
            Call_gpio_set_pin_function PIN_PA01 MUX_PA01D_SERCOM1_PAD1]
      else []) @
     [Call_pm_enable_bus_clock, Call_gclk_enable_channel,
      Write_CTRLA ctrla_config,
      Write_BAUD (ucast (uart_baud CONF_CPU_FREQUENCY baudrate)),
      Write_CTRLB ctrlb_config]"





text \<open>
  A register block with a transmission pending: the data register holds 0x41 and the
  data-register-empty flag is clear.
\<close>

definition pending_state :: uart_state where
  "pending_state = reset_state\<lparr>DATA := 0x41\<rparr>"

text \<open>A register block that is ready for a write: the data-register-empty flag is set.\<close>

definition ready_state :: uart_state where
  "ready_state = reset_state\<lparr>INTFLAG := SERCOM_USART_INTFLAG_DRE\<rparr>"

subsection \<open>uart\_init with the receive interrupt\<close>

text \<open>
  The handler is not called by the driver: the interrupt controller runs it between two
  instructions of whatever code is executing, \<^verbatim>\<open>uart_init\<close> included. An \<open>environment\<close> says
  what happens around the driver at the \<open>k\<close>-th instruction boundary: \<open>arrival env k\<close> is the
  byte, if any, that the receive line delivers there, and \<open>taken env k\<close> says whether the
  interrupt controller dispatches an asserted interrupt at this boundary (an interrupt that
  is asserted and not taken stays asserted: latency).
\<close>

record environment =
  arrival :: "nat \<Rightarrow> 16 word option"
  taken :: "nat \<Rightarrow> bool"

definition peripheral_enabled :: "uart_state \<Rightarrow> bool" where
  "peripheral_enabled s = (CTRLA s AND SERCOM_USART_CTRLA_ENABLE \<noteq> 0)"

text \<open>
  Modelled from the spec: the peripheral "signals receive complete" for a byte that it has
  received. It raises the condition for an arriving byte only while its enable bit is
  set; a disabled peripheral receives nothing.
\<close>

definition hw_receive :: "16 word option \<Rightarrow> uart_state \<Rightarrow> uart_state" where
  "hw_receive b s =
     (case b of
        None \<Rightarrow> s
      | Some d \<Rightarrow> if peripheral_enabled s then simulate_receive_complete d s else s)"

text \<open>
  Modelled from the spec: the interrupt controller, which "dispatches the peripheral's IRQ
  to this driver's handler". The interrupt of SERCOM1 is asserted when its line is enabled
  at the interrupt controller and a flag of INTFLAG is set that INTENSET has unmasked; at
  a boundary at which it is asserted and taken, the handler runs.
\<close>

definition irq_asserted :: "uart_state \<Rightarrow> bool" where
  "irq_asserted s = (irq_enabled s \<and> INTENSET s AND INTFLAG s \<noteq> 0)"

definition boundary :: "environment \<Rightarrow> nat \<Rightarrow> uart_state \<Rightarrow> uart_state" where
  "boundary env k s =
     (let s1 = hw_receive (arrival env k) s
      in if taken env k \<and> irq_asserted s1 then SERCOM1_Handler s1 else s1)"

text \<open>
  \<^verbatim>\<open>uart_init\<close> (lines 75 to 144) as the sequence of its statements, in the order and with
  the operations of the definition of \<open>uart_init\<close> above: \<open>Do\<close> is a statement, \<open>Wait\<close> a
  busy-wait, of which every test of the condition is an instruction of its own.
\<close>

datatype instr =
    Do "uart_state \<Rightarrow> uart_state"
  | Wait "uart_state \<Rightarrow> bool \<times> uart_state"

definition uart_init_program :: "32 word \<Rightarrow> bool \<Rightarrow> 32 word \<Rightarrow> instr list" where
  "uart_init_program CONF_CPU_FREQUENCY configure_pinmux baudrate =
     [Wait (syncbusy_bit SERCOM_USART_SYNCBUSY_ENABLE),
      Do (\<lambda>s. write_CTRLA (CTRLA s AND NOT SERCOM_USART_CTRLA_ENABLE) s),
      Wait (syncbusy_bit SERCOM_USART_SYNCBUSY_SWRST),
      Do (\<lambda>s. write_CTRLA (CTRLA s OR SERCOM_USART_CTRLA_SWRST) s),
      Wait (syncbusy_bit SERCOM_USART_SYNCBUSY_SWRST),
      Wait syncbusy_SWRST_or_ENABLE,
      Do (\<lambda>s. if configure_pinmux then uart_configure_pinmux s else s),
      Do pm_enable_bus_clock,
      Do gclk_enable_channel,
      Do (write_CTRLA ctrla_config),
      Do (write_BAUD (ucast (uart_baud CONF_CPU_FREQUENCY baudrate))),
      Do (write_CTRLB ctrlb_config),
      Wait (syncbusy_bit SERCOM_USART_SYNCBUSY_CTRLB),
      Do (write_INTENSET SERCOM_USART_INTENSET_RXC),
      Do NVIC_EnableIRQ,
      Do (\<lambda>s. write_CTRLA (CTRLA s OR SERCOM_USART_CTRLA_ENABLE) s),
      Wait (syncbusy_bit SERCOM_USART_SYNCBUSY_ENABLE)]"

text \<open>
  A configuration: the index of the next instruction, the number of instruction
  boundaries passed, and the state. A step lets the environment act at the boundary and
  then executes the instruction; past the end of the program nothing happens.
\<close>

record config =
  pc :: nat
  boundaries :: nat
  regs :: uart_state

definition step :: "environment \<Rightarrow> instr list \<Rightarrow> config \<Rightarrow> config" where
  "step env prog c =
     (if pc c < length prog
      then (case prog ! pc c of
              Do f \<Rightarrow>
                \<lparr>pc = Suc (pc c), boundaries = Suc (boundaries c),
                 regs = f (boundary env (boundaries c) (regs c))\<rparr>
            | Wait cond \<Rightarrow>
                (case cond (boundary env (boundaries c) (regs c)) of
                   (busy, s') \<Rightarrow>
                     \<lparr>pc = (if busy then pc c else Suc (pc c)),
                      boundaries = Suc (boundaries c), regs = s'\<rparr>))
      else c)"

fun run :: "environment \<Rightarrow> instr list \<Rightarrow> nat \<Rightarrow> config \<Rightarrow> config" where
  "run env prog 0 c = c"
| "run env prog (Suc n) c = run env prog n (step env prog c)"











text \<open>
  The environment in which no byte arrives and no interrupt is taken, and the runs of a
  program in it: \<open>quiet_run_reaches prog i t j t'\<close> says that the program, started at
  instruction \<open>i\<close> in state \<open>t\<close>, comes to instruction \<open>j\<close> in state \<open>t'\<close>.
\<close>

definition quiet :: environment where
  "quiet = \<lparr>arrival = (\<lambda>k. None), taken = (\<lambda>k. False)\<rparr>"

definition quiet_run_reaches :: "instr list \<Rightarrow> nat \<Rightarrow> uart_state \<Rightarrow> nat \<Rightarrow> uart_state \<Rightarrow> bool" where
  "quiet_run_reaches prog i t j t' =
     (\<forall>k. \<exists>m. run quiet prog m \<lparr>pc = i, boundaries = k, regs = t\<rparr> =
                \<lparr>pc = j, boundaries = k + m, regs = t'\<rparr>)"

section \<open>Auxiliary facts\<close>

lemmas write_defs = write_CTRLA_def write_CTRLB_def write_BAUD_def write_INTENSET_def
  write_DATA_def log_event_def gpio_set_pin_function_def pm_enable_bus_clock_def
  gclk_enable_channel_def NVIC_EnableIRQ_def uart_configure_pinmux_def uart_release_pinmux_def
  static_uart_configure_pinmux_def

lemmas mask_defs = SERCOM_USART_CTRLA_SWRST_def SERCOM_USART_CTRLA_ENABLE_def
  SERCOM_USART_CTRLA_MODE_USART_INT_CLK_def SERCOM_USART_CTRLA_RUNSTDBY_def
  SERCOM_USART_CTRLA_SAMPR_def SERCOM_USART_CTRLA_TXPO_def SERCOM_USART_CTRLA_RXPO_def
  SERCOM_USART_CTRLA_DORD_def SERCOM_USART_CTRLB_CHSIZE_def SERCOM_USART_CTRLB_TXEN_def
  SERCOM_USART_CTRLB_RXEN_def SERCOM_USART_SYNCBUSY_SWRST_def SERCOM_USART_SYNCBUSY_ENABLE_def
  SERCOM_USART_SYNCBUSY_CTRLB_def SERCOM_USART_INTENSET_RXC_def SERCOM_USART_INTFLAG_DRE_def
  SERCOM_USART_INTFLAG_RXC_def

subsection \<open>Bit masks\<close>

lemma or_and_same: "(x OR m) AND m = (m :: 'a :: len word)"
  by (simp add: word_ao_absorbs)

lemma and_not_and_same: "(x AND NOT m) AND m = (0 :: 'a :: len word)"
  by (simp add: and.assoc)

lemma ctrla_config_value: "ctrla_config = 0x40100084"
  by (simp add: ctrla_config_def mask_defs)

lemma ctrlb_config_value: "ctrlb_config = 0x30000"
  by (simp add: ctrlb_config_def mask_defs)



subsection \<open>The baud divisor\<close>

lemma shl32_out: "shl32 1 32 = 0" "shl32 1 42 = 0" "shl32 1 52 = 0" "shl32 1 62 = 0"
  by (simp_all add: shl32_def)

lemma baud_constants_zero:
  "baud_m1 clk = 0" "baud_m2 clk = 0" "baud_m3 clk = 0" "baud_m4 clk = 0"
  by (simp_all add: baud_m1_def baud_m2_def baud_m3_def baud_m4_def shl32_out)

lemma baud_fold_zero: "baud_fold 0 0 0 0 b = 65535"
  by (simp add: baud_fold_def)

lemma uart_baud_constant: "uart_baud clk b = 65535"
  by (simp add: uart_baud_def baud_constants_zero baud_fold_zero)

lemma spec_constants_48MHz:
  "spec_m1 48000000 = 89" "spec_m2 48000000 = 489"
  "spec_m3 48000000 = 992" "spec_m4 48000000 = 242"
  by (simp_all add: spec_m1_def spec_m2_def spec_m3_def spec_m4_def)

lemma spec_constants_8MHz:
  "spec_m1 8000000 = 536" "spec_m2 8000000 = 891"
  "spec_m3 8000000 = 833" "spec_m4 8000000 = 431"
  by (simp_all add: spec_m1_def spec_m2_def spec_m3_def spec_m4_def)

text \<open>
  Whatever 32-bit value a shift yields, its quotient by 48000000 is at most 89, and the
  fold on such constants stays below the reference value for 115200 baud.
\<close>

lemma unat_drop_bit_div: "unat (drop_bit k (w :: 32 word)) = unat w div 2 ^ k"
  unfolding unat_drop_bit_eq by (rule drop_bit_eq_div)

lemma step_bound:
  fixes m prev :: "32 word"
  assumes "unat m \<le> 89" and "unat prev \<le> P"
  shows "unat (drop_bit k (115200 * m + prev)) \<le> (10252800 + P) div 2 ^ k"
proof -
  have "unat (115200 * m + prev) \<le> 115200 * unat m + unat prev"
    by (simp add: unat_word_ariths)
  also have "\<dots> \<le> 10252800 + P" using assms by simp
  finally have "unat (115200 * m + prev) div 2 ^ k \<le> (10252800 + P) div 2 ^ k"
    by (rule div_le_mono)
  then show ?thesis by (simp add: unat_drop_bit_div)
qed

lemma quotient_bound:
  fixes p :: "32 word"
  shows "unat (p div 48000000) \<le> 89"
proof -
  have "unat p < 2 ^ 32" using unsigned_less [of p] by simp
  then have "unat p div 48000000 \<le> 89" by simp
  then show ?thesis by (simp add: unat_div)
qed

lemma masked_quotient_bound:
  fixes p :: "32 word"
  shows "unat ((p div 48000000) AND 0x3FF) \<le> 89"
proof -
  have "(p div 48000000) AND 0x3FF \<le> p div 48000000" by (rule word_and_le2)
  then have "unat ((p div 48000000) AND 0x3FF) \<le> unat (p div 48000000)"
    by (simp add: word_le_nat_alt)
  with quotient_bound [of p] show ?thesis by simp
qed

lemma baud_fold_small_constants:
  fixes m1 m2 m3 m4 :: "32 word"
  assumes "unat m1 \<le> 89" "unat m2 \<le> 89" "unat m3 \<le> 89"
  shows "baud_fold m1 m2 m3 m4 115200 \<noteq> 63019"
proof -
  define op4 where "op4 = drop_bit 10 (115200 * m4 - 1)"
  define op3 where "op3 = drop_bit 10 (115200 * m3 + op4)"
  define op2 where "op2 = drop_bit 10 (115200 * m2 + op3)"
  define op1 where "op1 = drop_bit 12 (115200 * m1 + op2)"
  have "unat (115200 * m4 - 1) < 2 ^ 32" using unsigned_less [of "115200 * m4 - 1"] by simp
  then have b4: "unat op4 \<le> 4194303" by (simp add: op4_def unat_drop_bit_div)
  have b3: "unat op3 \<le> 14108"
    using step_bound [OF assms(3) b4, of 10] by (simp add: op3_def)
  have b2: "unat op2 \<le> 10026"
    using step_bound [OF assms(2) b3, of 10] by (simp add: op2_def)
  have b1: "unat op1 \<le> 2505"
    using step_bound [OF assms(1) b2, of 12] by (simp add: op1_def)
  have "65535 - op1 \<noteq> 63019"
  proof
    assume e: "65535 - op1 = 63019"
    have "op1 = 65535 - (65535 - op1)" by simp
    also have "\<dots> = 2516" by (simp only: e) simp
    finally have "unat op1 = 2516" by simp
    with b1 show False by simp
  qed
  moreover have "baud_fold m1 m2 m3 m4 115200 = 65535 - op1"
    by (simp add: baud_fold_def op1_def op2_def op3_def op4_def)
  ultimately show ?thesis by simp
qed

subsection \<open>Busy-waits\<close>

lemma wait_while_busy:
  "fst (cond s) \<Longrightarrow> wait_while cond s = wait_while cond (snd (cond s))"
  by (subst wait_while.simps) (simp add: case_prod_beta)

lemma wait_while_done:
  "\<not> fst (cond s) \<Longrightarrow> wait_while cond s = Some (snd (cond s))"
  by (subst wait_while.simps) (simp add: case_prod_beta)

text \<open>
  A relation that every evaluation of the condition respects, and that is reflexive and
  transitive, holds between the state before a busy-wait and the state after it.
\<close>

lemma wait_while_invariant_aux:
  assumes "wait_while cond s = Some s'"
  shows "(\<forall>t b t'. cond t = (b, t') \<longrightarrow> R t t') \<longrightarrow> (\<forall>a. R a a) \<longrightarrow>
   (\<forall>a b c. R a b \<longrightarrow> R b c \<longrightarrow> R a c) \<longrightarrow> R s s'"
  using assms
proof (induction rule: wait_while.raw_induct [rotated 1, consumes 1, case_names unroll])
  case (unroll wait cond s s')
  show ?case
  proof (intro impI)
    assume step: "\<forall>t b t'. cond t = (b, t') \<longrightarrow> R t t'"
      and refl: "\<forall>a. R a a" and trans: "\<forall>a b c. R a b \<longrightarrow> R b c \<longrightarrow> R a c"
    obtain b t where c: "cond s = (b, t)" by (cases "cond s")
    from step c have st: "R s t" by blast
    show "R s s'"
    proof (cases b)
      case True
      with unroll.hyps c have "wait cond t = Some s'" by simp
      from unroll.IH [OF this] step refl trans have "R t s'" by blast
      with st trans show ?thesis by blast
    next
      case False
      with unroll.hyps c have "s' = t" by simp
      with st show ?thesis by simp
    qed
  qed
qed

lemma wait_while_invariant:
  assumes "wait_while cond s = Some s'"
    and "\<And>t b t'. cond t = (b, t') \<Longrightarrow> R t t'"
    and "\<And>a. R a a"
    and "\<And>a b c. R a b \<Longrightarrow> R b c \<Longrightarrow> R a c"
  shows "R s s'"
  using wait_while_invariant_aux [OF assms(1), of R] assms(2-4) by blast

lemma only_polls_refl: "only_polls a a"
  by (simp add: only_polls_def)

lemma only_polls_trans: "only_polls a b \<Longrightarrow> only_polls b c \<Longrightarrow> only_polls a c"
  unfolding only_polls_def
  by (cases a, cases b, cases c) auto

lemma only_polls_eq: "only_polls s s' \<Longrightarrow> s' = s\<lparr>syncbusy_reads := syncbusy_reads s'\<rparr>"
  by (simp add: only_polls_def)

lemma only_polls_SYNCBUSY: "only_polls s s' \<Longrightarrow> SYNCBUSY s' = SYNCBUSY s"
  by (cases s, cases s') (simp add: only_polls_def)

lemma syncbusy_bit_polls: "syncbusy_bit m t = (b, t') \<Longrightarrow> only_polls t t'"
  by (auto simp: syncbusy_bit_def read_SYNCBUSY_def only_polls_def)

lemma syncbusy_SWRST_or_ENABLE_polls:
  "syncbusy_SWRST_or_ENABLE t = (b, t') \<Longrightarrow> only_polls t t'"
  by (auto simp: syncbusy_SWRST_or_ENABLE_def syncbusy_bit_def read_SYNCBUSY_def only_polls_def
      split: if_splits)

lemma wait_syncbusy_bit_polls:
  "wait_while (syncbusy_bit m) s = Some s' \<Longrightarrow> only_polls s s'"
  by (erule wait_while_invariant)
    (auto intro: syncbusy_bit_polls only_polls_refl only_polls_trans)

lemma wait_SWRST_or_ENABLE_polls:
  "wait_while syncbusy_SWRST_or_ENABLE s = Some s' \<Longrightarrow> only_polls s s'"
  by (erule wait_while_invariant)
    (auto intro: syncbusy_SWRST_or_ENABLE_polls only_polls_refl only_polls_trans)

lemma wait_not_ready_same:
  "wait_while (\<lambda>t. (\<not> uart_ready_for_write t, t)) s = Some s' \<Longrightarrow> s' = s"
  by (erule wait_while_invariant [where R = "\<lambda>a b. b = a"]) auto

text \<open>When SYNCBUSY reads as 0 from some read on, every busy-wait on it ends.\<close>

lemma wait_syncbusy_bit_completes:
  assumes "\<forall>n\<ge>N. SYNCBUSY s n = 0"
  shows "\<exists>s'. wait_while (syncbusy_bit m) s = Some s'"
  using assms
proof (induction "N - syncbusy_reads s" arbitrary: s rule: less_induct)
  case less
  let ?v = "SYNCBUSY s (syncbusy_reads s)"
  let ?t = "s\<lparr>syncbusy_reads := Suc (syncbusy_reads s)\<rparr>"
  have c: "syncbusy_bit m s = (?v AND m \<noteq> 0, ?t)"
    by (simp add: syncbusy_bit_def read_SYNCBUSY_def)
  show ?case
  proof (cases "?v AND m \<noteq> 0")
    case True
    then have "?v \<noteq> 0" by auto
    with less.prems have "syncbusy_reads s < N" by (meson not_le_imp_less)
    then have "N - syncbusy_reads ?t < N - syncbusy_reads s" by simp
    moreover have "\<forall>n\<ge>N. SYNCBUSY ?t n = 0" using less.prems by simp
    ultimately obtain s' where "wait_while (syncbusy_bit m) ?t = Some s'"
      using less.hyps by blast
    with True c show ?thesis by (subst wait_while.simps) simp
  next
    case False
    with c show ?thesis by (subst wait_while.simps) simp
  qed
qed

lemma wait_SWRST_or_ENABLE_completes:
  assumes "\<forall>n\<ge>N. SYNCBUSY s n = 0"
  shows "\<exists>s'. wait_while syncbusy_SWRST_or_ENABLE s = Some s'"
  using assms
proof (induction "N - syncbusy_reads s" arbitrary: s rule: less_induct)
  case less
  obtain b t where c: "syncbusy_SWRST_or_ENABLE s = (b, t)"
    by (cases "syncbusy_SWRST_or_ENABLE s")
  show ?case
  proof (cases b)
    case True
    from c have p: "only_polls s t" by (rule syncbusy_SWRST_or_ENABLE_polls)
    have "syncbusy_reads s < N"
    proof (rule ccontr)
      assume "\<not> syncbusy_reads s < N"
      then have "SYNCBUSY s (syncbusy_reads s) = 0" "SYNCBUSY s (Suc (syncbusy_reads s)) = 0"
        using less.prems by simp_all
      with c True show False
        by (simp add: syncbusy_SWRST_or_ENABLE_def syncbusy_bit_def read_SYNCBUSY_def)
    qed
    moreover have "syncbusy_reads s < syncbusy_reads t"
      using c by (auto simp: syncbusy_SWRST_or_ENABLE_def syncbusy_bit_def read_SYNCBUSY_def
          split: if_splits)
    ultimately have "N - syncbusy_reads t < N - syncbusy_reads s" by simp
    moreover have "\<forall>n\<ge>N. SYNCBUSY t n = 0"
      using less.prems only_polls_SYNCBUSY [OF p] by simp
    ultimately obtain s' where "wait_while syncbusy_SWRST_or_ENABLE t = Some s'"
      using less.hyps by blast
    with True c show ?thesis by (subst wait_while.simps) simp
  next
    case False
    with c show ?thesis by (subst wait_while.simps) simp
  qed
qed

subsection \<open>The result of uart\_init\<close>

lemma SYNCBUSY_writes:
  "SYNCBUSY (write_CTRLA v s) = SYNCBUSY s"
  "SYNCBUSY (write_CTRLB v s) = SYNCBUSY s"
  "SYNCBUSY (write_BAUD w s) = SYNCBUSY s"
  "SYNCBUSY (write_INTENSET u s) = SYNCBUSY s"
  "SYNCBUSY (NVIC_EnableIRQ s) = SYNCBUSY s"
  "SYNCBUSY (pm_enable_bus_clock s) = SYNCBUSY s"
  "SYNCBUSY (gclk_enable_channel s) = SYNCBUSY s"
  "SYNCBUSY (uart_configure_pinmux s) = SYNCBUSY s"
  by (simp_all add: write_defs)

text \<open>
  Every call of \<^verbatim>\<open>uart_init\<close> that returns leaves the state that the straight-line code
  between the busy-waits builds; the busy-waits add reads of SYNCBUSY only.
\<close>

lemma uart_init_result:
  assumes "uart_init clk cp b s = Some s'"
  shows "s' = s\<lparr>CTRLA := ctrla_config OR SERCOM_USART_CTRLA_ENABLE,
                CTRLB := ctrlb_config,
                BAUD := ucast (uart_baud clk b),
                INTENSET := INTENSET s OR SERCOM_USART_INTENSET_RXC,
                syncbusy_reads := syncbusy_reads s',
                uart_active := (cp \<or> uart_active s),
                pin_function_of :=
                  (if cp then (pin_function_of s)
                     (PIN_PA00 := MUX_PA00D_SERCOM1_PAD0, PIN_PA01 := MUX_PA01D_SERCOM1_PAD1)
                   else pin_function_of s),
                irq_enabled := True,
                trace := trace s @ uart_init_events cp (CTRLA s) clk b @
                  [Write_INTENSET SERCOM_USART_INTENSET_RXC, Call_NVIC_EnableIRQ,
                   Write_CTRLA (ctrla_config OR SERCOM_USART_CTRLA_ENABLE)]\<rparr>"
proof -
  from assms obtain s1 s3 s5 s6 s12 where
    w1: "wait_while (syncbusy_bit SERCOM_USART_SYNCBUSY_ENABLE) s = Some s1" and
    w3: "wait_while (syncbusy_bit SERCOM_USART_SYNCBUSY_SWRST)
           (write_CTRLA (CTRLA s1 AND NOT SERCOM_USART_CTRLA_ENABLE) s1) = Some s3" and
    w5: "wait_while (syncbusy_bit SERCOM_USART_SYNCBUSY_SWRST)
           (write_CTRLA (CTRLA s3 OR SERCOM_USART_CTRLA_SWRST) s3) = Some s5" and
    w6: "wait_while syncbusy_SWRST_or_ENABLE s5 = Some s6" and
    w12: "wait_while (syncbusy_bit SERCOM_USART_SYNCBUSY_CTRLB)
           (write_CTRLB ctrlb_config (write_BAUD (ucast (uart_baud clk b))
             (write_CTRLA ctrla_config (gclk_enable_channel (pm_enable_bus_clock
               (if cp then uart_configure_pinmux s6 else s6)))))) = Some s12" and
    w16: "wait_while (syncbusy_bit SERCOM_USART_SYNCBUSY_ENABLE)
           (write_CTRLA (CTRLA (NVIC_EnableIRQ (write_INTENSET SERCOM_USART_INTENSET_RXC s12))
              OR SERCOM_USART_CTRLA_ENABLE)
             (NVIC_EnableIRQ (write_INTENSET SERCOM_USART_INTENSET_RXC s12))) = Some s'"
    by (auto simp: uart_init_def Let_def split: bind_splits)
  obtain n1 where e1: "s1 = s\<lparr>syncbusy_reads := n1\<rparr>"
    using only_polls_eq [OF wait_syncbusy_bit_polls [OF w1]] ..
  obtain n3 where e3: "s3 = (write_CTRLA (CTRLA s1 AND NOT SERCOM_USART_CTRLA_ENABLE) s1)
      \<lparr>syncbusy_reads := n3\<rparr>"
    using only_polls_eq [OF wait_syncbusy_bit_polls [OF w3]] ..
  obtain n5 where e5: "s5 = (write_CTRLA (CTRLA s3 OR SERCOM_USART_CTRLA_SWRST) s3)
      \<lparr>syncbusy_reads := n5\<rparr>"
    using only_polls_eq [OF wait_syncbusy_bit_polls [OF w5]] ..
  obtain n6 where e6: "s6 = s5\<lparr>syncbusy_reads := n6\<rparr>"
    using only_polls_eq [OF wait_SWRST_or_ENABLE_polls [OF w6]] ..
  obtain n12 where e12: "s12 = (write_CTRLB ctrlb_config (write_BAUD (ucast (uart_baud clk b))
             (write_CTRLA ctrla_config (gclk_enable_channel (pm_enable_bus_clock
               (if cp then uart_configure_pinmux s6 else s6))))))\<lparr>syncbusy_reads := n12\<rparr>"
    using only_polls_eq [OF wait_syncbusy_bit_polls [OF w12]] ..
  have e16: "s' = (write_CTRLA
             (CTRLA (NVIC_EnableIRQ (write_INTENSET SERCOM_USART_INTENSET_RXC s12))
              OR SERCOM_USART_CTRLA_ENABLE)
             (NVIC_EnableIRQ (write_INTENSET SERCOM_USART_INTENSET_RXC s12)))
             \<lparr>syncbusy_reads := syncbusy_reads s'\<rparr>"
    using only_polls_eq [OF wait_syncbusy_bit_polls [OF w16]] .
  show ?thesis
    by (subst e16, cases s) (simp add: e12 e6 e5 e3 e1 write_defs uart_init_events_def)
qed

text \<open>
  \<^verbatim>\<open>uart_init\<close> returns on every register block whose SYNCBUSY reads as 0 from some read
  on.
\<close>

lemma uart_init_completes:
  assumes "\<forall>n\<ge>N. SYNCBUSY s n = 0"
  shows "\<exists>s'. uart_init clk cp b s = Some s'"
proof -
  obtain s1 where w1: "wait_while (syncbusy_bit SERCOM_USART_SYNCBUSY_ENABLE) s = Some s1"
    using wait_syncbusy_bit_completes [OF assms] by blast
  have b1: "SYNCBUSY s1 = SYNCBUSY s"
    using only_polls_SYNCBUSY [OF wait_syncbusy_bit_polls [OF w1]] .
  define s2 where "s2 = write_CTRLA (CTRLA s1 AND NOT SERCOM_USART_CTRLA_ENABLE) s1"
  have b2: "\<forall>n\<ge>N. SYNCBUSY s2 n = 0"
    using assms b1 by (simp add: s2_def SYNCBUSY_writes)
  obtain s3 where w3: "wait_while (syncbusy_bit SERCOM_USART_SYNCBUSY_SWRST) s2 = Some s3"
    using wait_syncbusy_bit_completes [OF b2] by blast
  have b3: "SYNCBUSY s3 = SYNCBUSY s2"
    using only_polls_SYNCBUSY [OF wait_syncbusy_bit_polls [OF w3]] .
  define s4 where "s4 = write_CTRLA (CTRLA s3 OR SERCOM_USART_CTRLA_SWRST) s3"
  have b4: "\<forall>n\<ge>N. SYNCBUSY s4 n = 0"
    using b2 b3 by (simp add: s4_def SYNCBUSY_writes)
  obtain s5 where w5: "wait_while (syncbusy_bit SERCOM_USART_SYNCBUSY_SWRST) s4 = Some s5"
    using wait_syncbusy_bit_completes [OF b4] by blast
  have b5: "\<forall>n\<ge>N. SYNCBUSY s5 n = 0"
    using b4 only_polls_SYNCBUSY [OF wait_syncbusy_bit_polls [OF w5]] by simp
  obtain s6 where w6: "wait_while syncbusy_SWRST_or_ENABLE s5 = Some s6"
    using wait_SWRST_or_ENABLE_completes [OF b5] by blast
  have b6: "\<forall>n\<ge>N. SYNCBUSY s6 n = 0"
    using b5 only_polls_SYNCBUSY [OF wait_SWRST_or_ENABLE_polls [OF w6]] by simp
  define s11 where "s11 = write_CTRLB ctrlb_config (write_BAUD (ucast (uart_baud clk b))
             (write_CTRLA ctrla_config (gclk_enable_channel (pm_enable_bus_clock
               (if cp then uart_configure_pinmux s6 else s6)))))"
  have b11: "\<forall>n\<ge>N. SYNCBUSY s11 n = 0"
    using b6 by (simp add: s11_def SYNCBUSY_writes)
  obtain s12 where w12: "wait_while (syncbusy_bit SERCOM_USART_SYNCBUSY_CTRLB) s11 = Some s12"
    using wait_syncbusy_bit_completes [OF b11] by blast
  have b12: "\<forall>n\<ge>N. SYNCBUSY s12 n = 0"
    using b11 only_polls_SYNCBUSY [OF wait_syncbusy_bit_polls [OF w12]] by simp
  define s15 where "s15 = write_CTRLA
      (CTRLA (NVIC_EnableIRQ (write_INTENSET SERCOM_USART_INTENSET_RXC s12))
         OR SERCOM_USART_CTRLA_ENABLE)
      (NVIC_EnableIRQ (write_INTENSET SERCOM_USART_INTENSET_RXC s12))"
  have b15: "\<forall>n\<ge>N. SYNCBUSY s15 n = 0"
    using b12 by (simp add: s15_def SYNCBUSY_writes)
  obtain s16 where w16: "wait_while (syncbusy_bit SERCOM_USART_SYNCBUSY_ENABLE) s15 = Some s16"
    using wait_syncbusy_bit_completes [OF b15] by blast
  have "uart_init clk cp b s = Some s16"
    using w1 w3 w5 w6 w12 w16
    by (simp add: uart_init_def Let_def s2_def s4_def s11_def s15_def)
  then show ?thesis ..
qed

text \<open>
  The run on the reset register block, read by read: SYNCBUSY is busy on the first three
  reads, and the six busy-waits make ten reads in all.
\<close>

lemma uart_init_reset_state:
  "uart_init 48000000 cp 115200 reset_state =
     Some (reset_state\<lparr>CTRLA := 0x40100086, CTRLB := 0x30000, BAUD := 0xFFFF, INTENSET := 0x4,
        syncbusy_reads := 10, uart_active := cp,
        pin_function_of :=
          (if cp then (\<lambda>p. GPIO_PIN_FUNCTION_OFF)
             (PIN_PA00 := MUX_PA00D_SERCOM1_PAD0, PIN_PA01 := MUX_PA01D_SERCOM1_PAD1)
           else (\<lambda>p. GPIO_PIN_FUNCTION_OFF)),
        irq_enabled := True,
        trace := uart_init_events cp 0 48000000 115200 @
           [Write_INTENSET 0x4, Call_NVIC_EnableIRQ, Write_CTRLA 0x40100086]\<rparr>)"
  by (simp add: uart_init_def reset_state_def wait_while_busy wait_while_done syncbusy_bit_def
      read_SYNCBUSY_def syncbusy_SWRST_or_ENABLE_def write_defs Let_def uart_init_events_def
      uart_baud_constant ctrla_config_value ctrlb_config_value mask_defs)

subsection \<open>Steps of uart\_init with interrupts\<close>







text \<open>The program of \<^verbatim>\<open>uart_init\<close>, instruction by instruction.\<close>

lemma program_length: "length (uart_init_program clk cp b) = 17"
  by (simp add: uart_init_program_def)

lemma program_nth:
  "uart_init_program clk cp b ! 0 = Wait (syncbusy_bit SERCOM_USART_SYNCBUSY_ENABLE)"
  "uart_init_program clk cp b ! 1 =
     Do (\<lambda>s. write_CTRLA (CTRLA s AND NOT SERCOM_USART_CTRLA_ENABLE) s)"
  "uart_init_program clk cp b ! Suc 0 =
     Do (\<lambda>s. write_CTRLA (CTRLA s AND NOT SERCOM_USART_CTRLA_ENABLE) s)"
  "uart_init_program clk cp b ! 2 = Wait (syncbusy_bit SERCOM_USART_SYNCBUSY_SWRST)"
  "uart_init_program clk cp b ! 3 =
     Do (\<lambda>s. write_CTRLA (CTRLA s OR SERCOM_USART_CTRLA_SWRST) s)"
  "uart_init_program clk cp b ! 4 = Wait (syncbusy_bit SERCOM_USART_SYNCBUSY_SWRST)"
  "uart_init_program clk cp b ! 5 = Wait syncbusy_SWRST_or_ENABLE"
  "uart_init_program clk cp b ! 6 = Do (\<lambda>s. if cp then uart_configure_pinmux s else s)"
  "uart_init_program clk cp b ! 7 = Do pm_enable_bus_clock"
  "uart_init_program clk cp b ! 8 = Do gclk_enable_channel"
  "uart_init_program clk cp b ! 9 = Do (write_CTRLA ctrla_config)"
  "uart_init_program clk cp b ! 10 = Do (write_BAUD (ucast (uart_baud clk b)))"
  "uart_init_program clk cp b ! 11 = Do (write_CTRLB ctrlb_config)"
  "uart_init_program clk cp b ! 12 = Wait (syncbusy_bit SERCOM_USART_SYNCBUSY_CTRLB)"
  "uart_init_program clk cp b ! 13 = Do (write_INTENSET SERCOM_USART_INTENSET_RXC)"
  "uart_init_program clk cp b ! 14 = Do NVIC_EnableIRQ"
  "uart_init_program clk cp b ! 15 =
     Do (\<lambda>s. write_CTRLA (CTRLA s OR SERCOM_USART_CTRLA_ENABLE) s)"
  "uart_init_program clk cp b ! 16 = Wait (syncbusy_bit SERCOM_USART_SYNCBUSY_ENABLE)"
  by (simp_all add: uart_init_program_def)











lemma boundary_quiet: "boundary quiet k s = s"
  by (simp add: boundary_def quiet_def hw_receive_def)

lemma run_add: "run env prog (m + n) c = run env prog n (run env prog m c)"
  by (induction m arbitrary: c) simp_all

lemma reaches_trans:
  assumes "quiet_run_reaches prog i t j t'" and "quiet_run_reaches prog j t' l t''"
  shows "quiet_run_reaches prog i t l t''"
  unfolding quiet_run_reaches_def
proof
  fix k
  from assms(1) obtain m where
    m: "run quiet prog m \<lparr>pc = i, boundaries = k, regs = t\<rparr> =
      \<lparr>pc = j, boundaries = k + m, regs = t'\<rparr>"
    unfolding quiet_run_reaches_def by blast
  from assms(2) obtain n where
    n: "run quiet prog n \<lparr>pc = j, boundaries = k + m, regs = t'\<rparr> =
      \<lparr>pc = l, boundaries = k + m + n, regs = t''\<rparr>"
    unfolding quiet_run_reaches_def by blast
  from m n have "run quiet prog (m + n) \<lparr>pc = i, boundaries = k, regs = t\<rparr> =
      \<lparr>pc = l, boundaries = k + (m + n), regs = t''\<rparr>"
    by (simp add: run_add add.assoc)
  then show "\<exists>m. run quiet prog m \<lparr>pc = i, boundaries = k, regs = t\<rparr> =
      \<lparr>pc = l, boundaries = k + m, regs = t''\<rparr>" ..
qed

lemma reaches_Do:
  assumes "i < length prog" and "prog ! i = Do f"
  shows "quiet_run_reaches prog i t (Suc i) (f t)"
  unfolding quiet_run_reaches_def
proof
  fix k
  from assms have "run quiet prog 1 \<lparr>pc = i, boundaries = k, regs = t\<rparr> =
      \<lparr>pc = Suc i, boundaries = k + 1, regs = f t\<rparr>"
    by (simp add: step_def boundary_quiet)
  then show "\<exists>m. run quiet prog m \<lparr>pc = i, boundaries = k, regs = t\<rparr> =
      \<lparr>pc = Suc i, boundaries = k + m, regs = f t\<rparr>" ..
qed

lemma reaches_Wait_aux:
  assumes "wait_while cond t = Some t'"
  shows "i < length prog \<longrightarrow> prog ! i = Wait cond \<longrightarrow> quiet_run_reaches prog i t (Suc i) t'"
  using assms
proof (induction rule: wait_while.raw_induct [rotated 1, consumes 1, case_names unroll])
  case (unroll wait cond t t')
  show ?case
  proof (intro impI)
    assume i: "i < length prog" and w: "prog ! i = Wait cond"
    obtain busy t1 where c: "cond t = (busy, t1)" by (cases "cond t")
    have one: "run quiet prog 1 \<lparr>pc = i, boundaries = k, regs = t\<rparr> =
        \<lparr>pc = (if busy then i else Suc i), boundaries = k + 1, regs = t1\<rparr>" for k
      using i w c by (simp add: step_def boundary_quiet)
    show "quiet_run_reaches prog i t (Suc i) t'"
    proof (cases busy)
      case True
      with unroll.hyps c have "wait cond t1 = Some t'" by simp
      from unroll.IH [OF this] i w have r: "quiet_run_reaches prog i t1 (Suc i) t'" by blast
      from one True have "quiet_run_reaches prog i t i t1"
        unfolding quiet_run_reaches_def by (intro allI exI [of _ 1]) simp
      then show ?thesis using r by (rule reaches_trans)
    next
      case False
      with unroll.hyps c have "t' = t1" by simp
      with one False show ?thesis
        unfolding quiet_run_reaches_def by (intro allI exI [of _ 1]) simp
    qed
  qed
qed

lemma reaches_Wait:
  assumes "wait_while cond t = Some t'" and "i < length prog" and "prog ! i = Wait cond"
  shows "quiet_run_reaches prog i t (Suc i) t'"
  using reaches_Wait_aux [OF assms(1)] assms(2,3) by blast


lemma reaches_Do':
  assumes "i < length prog" and "prog ! i = Do f" and "j = Suc i" and "t' = f t"
  shows "quiet_run_reaches prog i t j t'"
  using reaches_Do [OF assms(1,2)] assms(3,4) by simp

lemma reaches_Wait':
  assumes "wait_while cond t = Some t'" and "i < length prog" and "prog ! i = Wait cond"
    and "j = Suc i"
  shows "quiet_run_reaches prog i t j t'"
  using reaches_Wait [OF assms(1-3)] assms(4) by simp

text \<open>
  The program is the function \<open>uart_init\<close>: every call of \<open>uart_init\<close> that returns is a
  run of the program, in the environment in which nothing happens, from the first
  instruction to the end, with the same final state.
\<close>

lemma uart_init_is_quiet_run:
  assumes "uart_init clk cp b s = Some s'"
  shows "quiet_run_reaches (uart_init_program clk cp b) 0 s 17 s'"
proof -
  let ?prog = "uart_init_program clk cp b"
  note len = program_length [of clk cp b]
  from assms obtain s1 s3 s5 s6 s12 where
    w1: "wait_while (syncbusy_bit SERCOM_USART_SYNCBUSY_ENABLE) s = Some s1" and
    w3: "wait_while (syncbusy_bit SERCOM_USART_SYNCBUSY_SWRST)
           (write_CTRLA (CTRLA s1 AND NOT SERCOM_USART_CTRLA_ENABLE) s1) = Some s3" and
    w5: "wait_while (syncbusy_bit SERCOM_USART_SYNCBUSY_SWRST)
           (write_CTRLA (CTRLA s3 OR SERCOM_USART_CTRLA_SWRST) s3) = Some s5" and
    w6: "wait_while syncbusy_SWRST_or_ENABLE s5 = Some s6" and
    w12: "wait_while (syncbusy_bit SERCOM_USART_SYNCBUSY_CTRLB)
           (write_CTRLB ctrlb_config (write_BAUD (ucast (uart_baud clk b))
             (write_CTRLA ctrla_config (gclk_enable_channel (pm_enable_bus_clock
               (if cp then uart_configure_pinmux s6 else s6)))))) = Some s12" and
    w16: "wait_while (syncbusy_bit SERCOM_USART_SYNCBUSY_ENABLE)
           (write_CTRLA (CTRLA (NVIC_EnableIRQ (write_INTENSET SERCOM_USART_INTENSET_RXC s12))
              OR SERCOM_USART_CTRLA_ENABLE)
             (NVIC_EnableIRQ (write_INTENSET SERCOM_USART_INTENSET_RXC s12))) = Some s'"
    by (auto simp: uart_init_def Let_def split: bind_splits)
  define s2 where "s2 = write_CTRLA (CTRLA s1 AND NOT SERCOM_USART_CTRLA_ENABLE) s1"
  define s4 where "s4 = write_CTRLA (CTRLA s3 OR SERCOM_USART_CTRLA_SWRST) s3"
  define s7 where "s7 = (if cp then uart_configure_pinmux s6 else s6)"
  define s8 where "s8 = pm_enable_bus_clock s7"
  define s8' where "s8' = gclk_enable_channel s8"
  define s9 where "s9 = write_CTRLA ctrla_config s8'"
  define s10 where "s10 = write_BAUD (ucast (uart_baud clk b)) s9"
  define s11 where "s11 = write_CTRLB ctrlb_config s10"
  define s13 where "s13 = write_INTENSET SERCOM_USART_INTENSET_RXC s12"
  define s14 where "s14 = NVIC_EnableIRQ s13"
  define s15 where "s15 = write_CTRLA (CTRLA s14 OR SERCOM_USART_CTRLA_ENABLE) s14"
  note defs = s2_def s4_def s7_def s8_def s8'_def s9_def s10_def s11_def s13_def s14_def s15_def
  have w3': "wait_while (syncbusy_bit SERCOM_USART_SYNCBUSY_SWRST) s2 = Some s3"
    using w3 by (simp add: defs)
  have w5': "wait_while (syncbusy_bit SERCOM_USART_SYNCBUSY_SWRST) s4 = Some s5"
    using w5 by (simp add: defs)
  have w12': "wait_while (syncbusy_bit SERCOM_USART_SYNCBUSY_CTRLB) s11 = Some s12"
    using w12 by (simp add: defs)
  have w16': "wait_while (syncbusy_bit SERCOM_USART_SYNCBUSY_ENABLE) s15 = Some s'"
    using w16 by (simp add: defs)
  have r0: "quiet_run_reaches ?prog 0 s 1 s1"
    by (rule reaches_Wait' [OF w1]) (simp_all add: len program_nth)
  have r1: "quiet_run_reaches ?prog 1 s1 2 s2"
    by (rule reaches_Do' [where f = "\<lambda>s. write_CTRLA (CTRLA s AND NOT SERCOM_USART_CTRLA_ENABLE) s"]) (simp_all add: len program_nth s2_def)
  have r2: "quiet_run_reaches ?prog 2 s2 3 s3"
    by (rule reaches_Wait' [OF w3']) (simp_all add: len program_nth)
  have r3: "quiet_run_reaches ?prog 3 s3 4 s4"
    by (rule reaches_Do' [where f = "\<lambda>s. write_CTRLA (CTRLA s OR SERCOM_USART_CTRLA_SWRST) s"]) (simp_all add: len program_nth s4_def)
  have r4: "quiet_run_reaches ?prog 4 s4 5 s5"
    by (rule reaches_Wait' [OF w5']) (simp_all add: len program_nth)
  have r5: "quiet_run_reaches ?prog 5 s5 6 s6"
    by (rule reaches_Wait' [OF w6]) (simp_all add: len program_nth)
  have r6: "quiet_run_reaches ?prog 6 s6 7 s7"
    by (rule reaches_Do' [where f = "\<lambda>s. if cp then uart_configure_pinmux s else s"]) (simp_all add: len program_nth s7_def)
  have r7: "quiet_run_reaches ?prog 7 s7 8 s8"
    by (rule reaches_Do' [where f = "pm_enable_bus_clock"]) (simp_all add: len program_nth s8_def)
  have r8: "quiet_run_reaches ?prog 8 s8 9 s8'"
    by (rule reaches_Do' [where f = "gclk_enable_channel"]) (simp_all add: len program_nth s8'_def)
  have r9: "quiet_run_reaches ?prog 9 s8' 10 s9"
    by (rule reaches_Do' [where f = "write_CTRLA ctrla_config"]) (simp_all add: len program_nth s9_def)
  have r10: "quiet_run_reaches ?prog 10 s9 11 s10"
    by (rule reaches_Do' [where f = "write_BAUD (ucast (uart_baud clk b))"]) (simp_all add: len program_nth s10_def)
  have r11: "quiet_run_reaches ?prog 11 s10 12 s11"
    by (rule reaches_Do' [where f = "write_CTRLB ctrlb_config"]) (simp_all add: len program_nth s11_def)
  have r12: "quiet_run_reaches ?prog 12 s11 13 s12"
    by (rule reaches_Wait' [OF w12']) (simp_all add: len program_nth)
  have r13: "quiet_run_reaches ?prog 13 s12 14 s13"
    by (rule reaches_Do' [where f = "write_INTENSET SERCOM_USART_INTENSET_RXC"]) (simp_all add: len program_nth s13_def)
  have r14: "quiet_run_reaches ?prog 14 s13 15 s14"
    by (rule reaches_Do' [where f = "NVIC_EnableIRQ"]) (simp_all add: len program_nth s14_def)
  have r15: "quiet_run_reaches ?prog 15 s14 16 s15"
    by (rule reaches_Do' [where f = "\<lambda>s. write_CTRLA (CTRLA s OR SERCOM_USART_CTRLA_ENABLE) s"]) (simp_all add: len program_nth s15_def)
  have r16: "quiet_run_reaches ?prog 16 s15 17 s'"
    by (rule reaches_Wait' [OF w16']) (simp_all add: len program_nth)
  show ?thesis
    apply (rule reaches_trans [OF r0])
    apply (rule reaches_trans [OF r1])
    apply (rule reaches_trans [OF r2])
    apply (rule reaches_trans [OF r3])
    apply (rule reaches_trans [OF r4])
    apply (rule reaches_trans [OF r5])
    apply (rule reaches_trans [OF r6])
    apply (rule reaches_trans [OF r7])
    apply (rule reaches_trans [OF r8])
    apply (rule reaches_trans [OF r9])
    apply (rule reaches_trans [OF r10])
    apply (rule reaches_trans [OF r11])
    apply (rule reaches_trans [OF r12])
    apply (rule reaches_trans [OF r13])
    apply (rule reaches_trans [OF r14])
    apply (rule reaches_trans [OF r15])
    apply (rule r16)
    done
qed

section \<open>Properties of the driver\<close>

subsection \<open>Baud computation\<close>

text \<open>
  Claim C1: for every baud rate of the representative set and for 48 MHz and 8 MHz, the
  value that \<^verbatim>\<open>uart_init\<close> writes to the baud register is
  \<open>65535 - floor (65536 * 16 * target_baud / clock_hz)\<close>.

  The code does not do this. The four shifts of \<^verbatim>\<open>UINT32_C(1)\<close> are 32-bit shifts by 32, 42, 52
  and 62: the constants \<open>m1\<close> to \<open>m4\<close> are 0, and the computed value is 65535 for every clock
  frequency and every baud rate. For each pair of the representative set the 16-bit value
  written differs from the reference value; for 115200 baud at 48 MHz the reference value
  is 63019, and \<^verbatim>\<open>uart_init(true, 115200)\<close> on the reset register block leaves 0xFFFF in
  the baud register. C leaves a shift by the width of the type or more undefined; the last part of
  the theorem does not depend on what such a shift yields: whatever 32-bit values the four
  shifts have, the value computed for 115200 baud at 48 MHz is not 63019.
\<close>

theorem uart_baud_not_reference:
  "uart_baud CONF_CPU_FREQUENCY baudrate = 65535 \<and>
   list_all
     (\<lambda>(clock_hz, target_baud).
        uint (ucast (uart_baud (of_nat clock_hz) (of_nat target_baud)) :: 16 word)
          \<noteq> reference_baud clock_hz target_baud)
     representative_inputs \<and>
   reference_baud 48000000 115200 = 63019 \<and>
   (\<exists>s'. uart_init 48000000 True 115200 reset_state = Some s' \<and> BAUD s' = 0xFFFF) \<and>
   (\<forall>p32 p42 p52 p62.
      baud_fold (p32 div 48000000) ((p42 div 48000000) AND 0x3FF)
        ((p52 div 48000000) AND 0x3FF) ((p62 div 48000000) AND 0x3FF) 115200 \<noteq> 63019)"
proof -
  have "baud_fold (p32 div 48000000) ((p42 div 48000000) AND 0x3FF)
        ((p52 div 48000000) AND 0x3FF) ((p62 div 48000000) AND 0x3FF) 115200 \<noteq> 63019"
    for p32 p42 p52 p62
    by (rule baud_fold_small_constants) (rule quotient_bound masked_quotient_bound)+
  then show ?thesis
    by (simp add: uart_baud_constant representative_inputs_def reference_baud_def
        uart_init_reset_state)
qed

text \<open>
  Claim C2: the baud computation precomputes four constants equal to \<open>2^32 / clock_hz\<close> and
  to \<open>2^42\<close>, \<open>2^52\<close>, \<open>2^62\<close> divided by \<open>clock_hz\<close> and masked to 10 bits, folds the baud
  rate through them in four multiply, add and shift steps, and writes \<open>65535 - op1\<close>.

  The constants of the code are not these: at 48 MHz the code's four constants are 0,
  where the specified ones are 89, 489, 992 and 242. The specified algorithm gives the
  reference value 63019 for 115200 baud, whether its first step adds 0 or, as the code
  does, subtracts 1, and it gives the reference value on the whole representative set;
  the code gives 65535.
\<close>

theorem uart_baud_constants_not_specified:
  "baud_m1 48000000 = 0 \<and> baud_m2 48000000 = 0 \<and>
   baud_m3 48000000 = 0 \<and> baud_m4 48000000 = 0 \<and>
   spec_m1 48000000 = 89 \<and> spec_m2 48000000 = 489 \<and>
   spec_m3 48000000 = 992 \<and> spec_m4 48000000 = 242 \<and>
   spec_compute_baud_register 0 48000000 115200 = 63019 \<and>
   spec_compute_baud_register (- 1) 48000000 115200 = 63019 \<and>
   list_all
     (\<lambda>(clock_hz, target_baud).
        spec_compute_baud_register (- 1) clock_hz target_baud =
          reference_baud clock_hz target_baud)
     representative_inputs \<and>
   uart_baud 48000000 115200 = 65535"
  by (simp add: baud_constants_zero uart_baud_constant representative_inputs_def
      spec_compute_baud_register_def spec_step_def reference_baud_def
      spec_constants_48MHz spec_constants_8MHz)

subsection \<open>Initialisation\<close>




text \<open>
  Claim C5: after \<^verbatim>\<open>uart_init(true, 115200)\<close> completes on a simulated register block
  whose polled flags eventually clear, the enable bit is set, the receive-complete
  interrupt is unmasked, and the baud register holds the reference value for 115200 baud
  at the configured clock frequency.

  On every register block whose SYNCBUSY reads as 0 from some read on, the call
  returns, with the enable bit set and the interrupt unmasked. The baud register then
  holds 0xFFFF, whatever the clock frequency, and not the reference value, which is 63019
  at 48 MHz and 50436 at 8 MHz.
\<close>

theorem uart_init_115200_registers:
  assumes "\<forall>n\<ge>N. SYNCBUSY s n = 0"
  shows "\<exists>s'. uart_init CONF_CPU_FREQUENCY True 115200 s = Some s' \<and>
           CTRLA s' AND SERCOM_USART_CTRLA_ENABLE = SERCOM_USART_CTRLA_ENABLE \<and>
           INTENSET s' AND SERCOM_USART_INTENSET_RXC = SERCOM_USART_INTENSET_RXC \<and>
           BAUD s' = 0xFFFF \<and>
           reference_baud 48000000 115200 = 63019 \<and>
           reference_baud 8000000 115200 = 50436"
proof -
  obtain s' where r: "uart_init CONF_CPU_FREQUENCY True 115200 s = Some s'"
    using uart_init_completes [OF assms] by blast
  have "CTRLA s' AND SERCOM_USART_CTRLA_ENABLE = SERCOM_USART_CTRLA_ENABLE"
    by (subst uart_init_result [OF r]) (simp add: or_and_same)
  moreover have "INTENSET s' AND SERCOM_USART_INTENSET_RXC = SERCOM_USART_INTENSET_RXC"
    by (subst uart_init_result [OF r]) (simp add: or_and_same)
  moreover have "BAUD s' = 0xFFFF"
    by (subst uart_init_result [OF r]) (simp add: uart_baud_constant)
  ultimately show ?thesis
    using r by (simp add: reference_baud_def)
qed

theorem uart_init_115200_registers_witness:
  "\<exists>s'. uart_init 48000000 True 115200 reset_state = Some s' \<and>
     CTRLA s' = 0x40100086 \<and> INTENSET s' = 0x4 \<and> BAUD s' = 0xFFFF \<and>
     uint (BAUD s') \<noteq> reference_baud 48000000 115200"
proof -
  have "\<forall>n\<ge>3. SYNCBUSY reset_state n = 0"
    by (simp add: reset_state_def)
  from uart_init_115200_registers [OF this, of 48000000] show ?thesis
    by (simp add: uart_init_reset_state)
qed

subsection \<open>The Active flag and the pins\<close>

text \<open>
  Claim C7: the Active flag is changed only by the pin-mux operations.
  \<^verbatim>\<open>uart_configure_pinmux\<close> sets it, \<^verbatim>\<open>uart_release_pinmux\<close> clears it, and \<^verbatim>\<open>uart_init\<close>
  changes it only through \<^verbatim>\<open>uart_configure_pinmux\<close>, when its first argument is true: after
  \<^verbatim>\<open>uart_init(false, b)\<close> the flag is what it was. The writes of CTRLA that disable, reset
  and enable the peripheral, the interrupt handler, the callback and the two writes leave
  it as it is.
\<close>

theorem uart_active_only_by_pinmux:
  assumes "uart_init CONF_CPU_FREQUENCY configure_pinmux baudrate s = Some s'"
    and "uart_blocking_write byte t = Some t'"
  shows "uart_active (uart_configure_pinmux s) = True \<and>
         uart_active (uart_release_pinmux s) = False \<and>
         uart_active s' =
           uart_active (if configure_pinmux then uart_configure_pinmux s else s) \<and>
         uart_active (write_CTRLA v s) = uart_active s \<and>
         uart_active (SERCOM1_Handler s) = uart_active s \<and>
         uart_active (uart_byte_received_cb byte s) = uart_active s \<and>
         uart_active (uart_nonblocking_write byte s) = uart_active s \<and>
         uart_active t' = uart_active t"
proof -
  have i: "uart_active s' = (configure_pinmux \<or> uart_active s)"
    by (subst uart_init_result [OF assms(1)]) simp
  from assms(2) obtain t1 where
    w: "wait_while (\<lambda>t. (\<not> uart_ready_for_write t, t)) t = Some t1" and
    t': "t' = uart_nonblocking_write byte t1"
    by (auto simp: uart_blocking_write_def split: bind_splits)
  from wait_not_ready_same [OF w] t' have b: "uart_active t' = uart_active t"
    by (simp add: uart_nonblocking_write_def write_defs)
  from i b show ?thesis
    by (simp add: write_defs SERCOM1_Handler_def read_DATA_def uart_byte_received_cb_def
        uart_nonblocking_write_def)
qed

theorem uart_active_only_by_pinmux_witness:
  "\<exists>s' t'. uart_init 48000000 False 115200 reset_state = Some s' \<and>
     uart_blocking_write 0x41 ready_state = Some t' \<and>
     uart_active s' = uart_active reset_state \<and>
     uart_active t' = uart_active ready_state"
proof -
  have b: "uart_blocking_write 0x41 ready_state =
      Some (uart_nonblocking_write 0x41 ready_state)"
    by (simp add: uart_blocking_write_def wait_while_done uart_ready_for_write_def
        ready_state_def reset_state_def SERCOM_USART_INTFLAG_DRE_def)
  from uart_active_only_by_pinmux [OF uart_init_reset_state [of False] b]
  show ?thesis
    by (simp add: uart_init_reset_state b)
qed

text \<open>
  Claim C8: calling \<^verbatim>\<open>uart_release_pinmux\<close> twice in succession, from any state, leaves the
  Active flag false and the same pin roles as calling it once. The second call changes
  nothing but the record of its two calls of the pin-function mapper.
\<close>

theorem uart_release_pinmux_twice:
  "uart_active (uart_release_pinmux (uart_release_pinmux s)) = False \<and>
   pin_function_of (uart_release_pinmux (uart_release_pinmux s)) =
     pin_function_of (uart_release_pinmux s) \<and>
   uart_release_pinmux (uart_release_pinmux s) =
     (uart_release_pinmux s)\<lparr>trace := trace (uart_release_pinmux s) @
        [Call_gpio_set_pin_function PIN_PA00 GPIO_PIN_FUNCTION_OFF,
         Call_gpio_set_pin_function PIN_PA01 GPIO_PIN_FUNCTION_OFF]\<rparr>"
  by (simp add: write_defs)

text \<open>
  Claim C9: from any state, \<^verbatim>\<open>uart_configure_pinmux\<close> followed by \<^verbatim>\<open>uart_release_pinmux\<close>
  leaves both pins in the unconfigured general-purpose role and the Active flag false.
  In between, the pins are attached to the pads of SERCOM1 and the flag is true.
\<close>

theorem uart_configure_then_release:
  "pin_function_of (uart_release_pinmux (uart_configure_pinmux s)) PIN_PA00 =
     GPIO_PIN_FUNCTION_OFF \<and>
   pin_function_of (uart_release_pinmux (uart_configure_pinmux s)) PIN_PA01 =
     GPIO_PIN_FUNCTION_OFF \<and>
   uart_active (uart_release_pinmux (uart_configure_pinmux s)) = False \<and>
   pin_function_of (uart_configure_pinmux s) PIN_PA00 = MUX_PA00D_SERCOM1_PAD0 \<and>
   pin_function_of (uart_configure_pinmux s) PIN_PA01 = MUX_PA01D_SERCOM1_PAD1 \<and>
   uart_active (uart_configure_pinmux s) = True"
  by (simp add: write_defs)

subsection \<open>Transfer path\<close>

text \<open>
  Claim C3: for every 16-bit data value, one receive-complete condition makes
  \<^verbatim>\<open>SERCOM1_Handler\<close> read the data register exactly once and call the byte-received
  callback exactly once, with the low 8 bits of the value, and the callback is not called
  again until another receive-complete condition occurs.

  The handler adds one read of the data register and one call of the callback to the
  trace. A second invocation, with no new receive-complete condition, changes nothing.
  After a second receive-complete condition the handler reads and dispatches once more.
\<close>

theorem SERCOM1_Handler_dispatches_once:
  "trace (SERCOM1_Handler (simulate_receive_complete d s)) =
     trace s @ [Read_DATA d, Call_uart_byte_received_cb (ucast d)] \<and>
   uint (ucast d :: 8 word) = uint d mod 256 \<and>
   SERCOM1_Handler (SERCOM1_Handler (simulate_receive_complete d s)) =
     SERCOM1_Handler (simulate_receive_complete d s) \<and>
   trace (SERCOM1_Handler (simulate_receive_complete d'
            (SERCOM1_Handler (simulate_receive_complete d s)))) =
     trace s @ [Read_DATA d, Call_uart_byte_received_cb (ucast d),
                Read_DATA d', Call_uart_byte_received_cb (ucast d')] \<and>
   trace (SERCOM1_Handler (simulate_receive_complete 0x41 s)) =
     trace s @ [Read_DATA 0x41, Call_uart_byte_received_cb 0x41]"
proof -
  have rxc: "SERCOM_USART_INTFLAG_RXC \<noteq> 0"
    by (simp add: SERCOM_USART_INTFLAG_RXC_def)
  have h: "SERCOM1_Handler (simulate_receive_complete x t) =
      t\<lparr>DATA := x, INTFLAG := INTFLAG t AND NOT SERCOM_USART_INTFLAG_RXC,
        trace := trace t @ [Read_DATA x, Call_uart_byte_received_cb (ucast x)]\<rparr>" for x t
    by (simp add: SERCOM1_Handler_def simulate_receive_complete_def read_DATA_def
        uart_byte_received_cb_def log_event_def or_and_same rxc bit.conj_disj_distrib2)
  have again: "SERCOM1_Handler (SERCOM1_Handler (simulate_receive_complete d s)) =
      SERCOM1_Handler (simulate_receive_complete d s)"
    by (simp add: h) (simp add: SERCOM1_Handler_def and_not_and_same)
  have low: "uint (ucast d :: 8 word) = uint d mod 256"
    by (simp add: unsigned_ucast_eq take_bit_eq_mod)
  from again low show ?thesis
    by (simp add: h)
qed

text \<open>
  Claim C10: invoked while the receive-complete flag is clear, \<^verbatim>\<open>SERCOM1_Handler\<close> does not
  read the data register, does not call the callback, and leaves the driver and the
  registers as they are: the state after the call, trace included, is the state before it.
\<close>

theorem SERCOM1_Handler_spurious:
  assumes "INTFLAG s AND SERCOM_USART_INTFLAG_RXC = 0"
  shows "SERCOM1_Handler s = s"
  using assms by (simp add: SERCOM1_Handler_def)

theorem SERCOM1_Handler_spurious_witness:
  "INTFLAG ready_state AND SERCOM_USART_INTFLAG_RXC = 0 \<and>
   SERCOM1_Handler ready_state = ready_state \<and>
   trace (SERCOM1_Handler ready_state) = []"
proof -
  have f: "INTFLAG ready_state AND SERCOM_USART_INTFLAG_RXC = 0"
    by (simp add: ready_state_def reset_state_def mask_defs)
  from SERCOM1_Handler_spurious [OF f] f show ?thesis
    by (simp add: ready_state_def reset_state_def)
qed

text \<open>
  Claim C6: \<^verbatim>\<open>uart_nonblocking_write\<close>, called while \<^verbatim>\<open>uart_ready_for_write()\<close> is false, does
  not overwrite the pending transmission.

  The function does not look at the flag (its comment says so: the caller is assumed to
  know that the UART is available). On a register block that is not ready and holds 0x41
  in the data register, writing 0x42 replaces the pending value.
\<close>

theorem uart_nonblocking_write_overwrites_pending:
  "\<not> uart_ready_for_write pending_state \<and>
   DATA pending_state = 0x41 \<and>
   DATA (uart_nonblocking_write 0x42 pending_state) = 0x42 \<and>
   DATA (uart_nonblocking_write 0x42 pending_state) \<noteq> DATA pending_state"
  by (simp add: uart_ready_for_write_def uart_nonblocking_write_def write_defs
      pending_state_def reset_state_def)

text \<open>
  Claim C6, amended: in every state, ready for a write or not, \<^verbatim>\<open>uart_nonblocking_write\<close>
  does one thing: it writes the byte to the data register. Afterwards the register holds
  the byte, whatever it held before, and the function has changed nothing else. The
  readiness flag plays no part.
\<close>

theorem uart_nonblocking_write_unconditional:
  "uart_nonblocking_write byte s =
     s\<lparr>DATA := ucast byte, trace := trace s @ [Write_DATA (ucast byte)]\<rparr> \<and>
   DATA (uart_nonblocking_write byte s) = ucast byte"
  by (simp add: uart_nonblocking_write_def write_defs)

end
